theory Spec2Isabelle
  imports Complex_Main "HOL-Library.Multiset"
begin

section \<open>The command line of librespeed: \<^verbatim>\<open>src/librespeed/cli.py\<close>\<close>

text \<open>
  The module has two functions. \<^verbatim>\<open>parse_args\<close> declares the options and returns the
  namespace that \<^verbatim>\<open>argparse\<close> builds; \<^verbatim>\<open>cli\<close> reads that namespace and drives
  four functions of the modules \<^verbatim>\<open>librespeed.core\<close> and \<^verbatim>\<open>librespeed.ping\<close>, and
  \<^verbatim>\<open>urllib.parse.urlsplit\<close>.  The embedding takes the namespace as the input of
  \<^verbatim>\<open>cli\<close>, takes the functions it calls as parameters, and returns the sequence of
  calls made, the way the run ended and the state of the outside world.
\<close>

subsection \<open>Exceptions\<close>

text \<open>
  \<^verbatim>\<open>HttpError\<close> is the one exception \<^verbatim>\<open>cli\<close> names (line 255); \<^verbatim>\<open>IndexError\<close> is
  what Python raises for \<^verbatim>\<open>results[0]\<close> on an empty list (line 278).

  Modelled from the spec: \<^verbatim>\<open>librespeed/errors.py\<close> is not among the sources, so the
  other constructors are the taxonomy of section 7 of the specification
  (ConnectivityError is "no server reachable at all", ConfigurationError is
  "mutually exclusive or invalid options").  \<open>OtherError\<close> stands for any other
  exception class a called function may raise, by name.
\<close>

datatype exn =
    HttpError
  | IndexError
  | ConnectivityError
  | PartialMeasurementError
  | TimeoutError
  | ConfigurationError
  | OtherError string

subsection \<open>The namespace returned by \<^verbatim>\<open>parse_args\<close>\<close>

text \<open>
  A Python float (option \<^verbatim>\<open>--upload-size\<close>, \<^verbatim>\<open>type=float\<close>): a finite value, an
  infinity or a NaN.  \<^verbatim>\<open>cli\<close> never inspects it.
\<close>

datatype pyfloat = Finite rat | PosInf | NegInf | NaN

text \<open>
  One field per \<^verbatim>\<open>add_argument\<close> call, under its \<^verbatim>\<open>dest\<close>, in the order of the source.
  A \<^verbatim>\<open>store_true\<close> option is a bool; an option with \<^verbatim>\<open>type=int\<close> is an int; an option
  without a default is \<^verbatim>\<open>None\<close> when absent; \<^verbatim>\<open>nargs="+"\<close> collects a list.
\<close>

record args =
  ipv4 :: bool
  ipv6 :: bool
  no_download :: bool
  no_upload :: bool
  no_icmp :: bool
  concurrent :: int
  bytes :: bool
  mebibytes :: bool
  distance :: string
  share :: bool
  simple :: bool
  verbose :: bool
  csv :: bool
  csv_delimiter :: string
  csv_header :: bool
  json :: bool
  show_server_list :: bool
  server_id_allow_list :: "int list option"
  server_id_deny_list :: "int list option"
  server_json :: "string option"
  local_json :: "string option"
  source :: "string option"
  timeout :: int
  duration :: int
  chunk :: int
  upload_size :: pyfloat
  force_https :: bool
  skip_cert_verify :: bool
  no_pre_allocate :: bool
  telemetry_json :: "string option"
  telemetry_level :: "string option"
  telemetry_server :: "string option"
  telemetry_path :: "string option"
  telemetry_share :: "string option"
  telemetry_extra :: "string option"

text \<open>The namespace of an empty command line: every option at its declared default.\<close>

definition default_args :: args where
  "default_args =
     \<lparr> ipv4 = False, ipv6 = False, no_download = False, no_upload = False,
       no_icmp = False, concurrent = 3, bytes = False, mebibytes = False,
       distance = ''km'', share = False, simple = False, verbose = False,
       csv = False, csv_delimiter = '','', csv_header = False, json = False,
       show_server_list = False, server_id_allow_list = None,
       server_id_deny_list = None, server_json = None, local_json = None,
       source = None, timeout = 15, duration = 15, chunk = 100,
       upload_size = Finite 1024, force_https = False, skip_cert_verify = False,
       no_pre_allocate = False, telemetry_json = None, telemetry_level = None,
       telemetry_server = None, telemetry_path = None, telemetry_share = None,
       telemetry_extra = None \<rparr>"

subsection \<open>Servers, ping samples and ranked servers\<close>

text \<open>
  Modelled from the spec: the code that builds the server dictionaries
  (\<^verbatim>\<open>librespeed.core.get_remote_servers\<close>) is not among the sources.  Section 3 of the
  specification gives a Server an identifier, a display name, a base URL and optional
  sponsor metadata; \<^verbatim>\<open>cli\<close> reads exactly the keys \<^verbatim>\<open>id\<close>, \<^verbatim>\<open>name\<close>, \<^verbatim>\<open>server\<close>
  (by subscript and by \<^verbatim>\<open>format\<close>) and \<^verbatim>\<open>sponsorName\<close>, \<^verbatim>\<open>sponsorURL\<close> (by \<^verbatim>\<open>get\<close>,
  so they may be missing or null).  The field \<open>id'\<close> is the key \<^verbatim>\<open>id\<close>.
\<close>

record server =
  id' :: int
  name :: string
  server :: string
  sponsorName :: "string option"
  sponsorURL :: "string option"

text \<open>
  Modelled from the spec: \<^verbatim>\<open>librespeed/ping.py\<close> is not among the sources.  Section 3:
  a PingSample is (server reference, round-trip time in milliseconds, success flag);
  the prober returns, for each host in candidate order, its samples in attempt order.
\<close>

record ping_sample =
  host :: string
  rtt :: rat
  success :: bool

type_synonym ping_results = "(string \<times> ping_sample list) list"

text \<open>
  Modelled from the spec: a RankedServer is (server, representative latency, sample
  count).  \<^verbatim>\<open>cli\<close> reads the server of a ranked result under the key \<^verbatim>\<open>domain\<close>
  (line 278).
\<close>

record ranked_server =
  domain :: string
  latency :: rat
  sample_count :: nat

subsection \<open>The functions \<^verbatim>\<open>cli\<close> calls\<close>

text \<open>
  The keyword arguments \<^verbatim>\<open>**server_filters\<close>: the dictionary literal of lines 244 to
  249, as the list of its items.
\<close>

type_synonym server_filters = "(string \<times> int list option) list"

text \<open>
  The called functions are parameters.  Those that reach the network take the state
  of the outside world \<open>'w\<close> and return the new one; each returns a value or raises.
  \<^item> \<open>get_remote_servers force_https retry filters\<close>: \<open>retry\<close> is \<open>None\<close> when the
    keyword is not passed (line 252) and \<open>Some True\<close> at line 256;
  \<^item> \<open>do_icmp_ping hosts\<close>;
  \<^item> \<open>order_ping_results_by_rtt results\<close>;
  \<^item> \<open>do_speed_test servers\<close>, whose result has type \<open>'r\<close>;
  \<^item> \<open>urlsplit_netloc url\<close> is \<^verbatim>\<open>urllib.parse.urlsplit(url).netloc\<close> of the Python
    library, which raises on some malformed URLs.
\<close>

record ('w, 'r) collaborators =
  get_remote_servers ::
    "bool \<Rightarrow> bool option \<Rightarrow> server_filters \<Rightarrow> 'w \<Rightarrow> (exn + server list) \<times> 'w"
  do_icmp_ping :: "string list \<Rightarrow> 'w \<Rightarrow> (exn + ping_results) \<times> 'w"
  order_ping_results_by_rtt :: "ping_results \<Rightarrow> exn + ranked_server list"
  do_speed_test :: "server list \<Rightarrow> 'w \<Rightarrow> (exn + 'r) \<times> 'w"
  urlsplit_netloc :: "string \<Rightarrow> exn + string"

subsection \<open>What a run does\<close>

datatype log_level = DEBUG | INFO | WARNING

text \<open>The calls a run makes, in the order it makes them.\<close>

datatype 'r event =
    BasicConfig log_level
  | SetLevel string log_level
  | GetRemoteServers bool "bool option" server_filters
  | Print string
  | LoggerInfo string
  | DoIcmpPing "string list"
  | OrderPingResults ping_results
  | DoSpeedTest "server list"
  | LoggerInfoResults 'r

record ('w, 'r) run =
  trace :: "'r event list"
  outcome :: "exn + unit"
  world :: 'w

subsection \<open>Printing the server list (lines 261 to 267)\<close>

text \<open>
  \<^verbatim>\<open>str\<close> of an int, for the field \<^verbatim>\<open>{id}\<close> of the format string.  \<open>digit_char\<close> is
  only applied to a digit (\<open>d < 10\<close>).
\<close>

definition digit_char :: "nat \<Rightarrow> char" where
  "digit_char d = ''0123456789'' ! d"

function str_nat :: "nat \<Rightarrow> string" where
  "str_nat n =
     (if n < 10 then [digit_char n] else str_nat (n div 10) @ [digit_char (n mod 10)])"
  by pat_completeness auto
termination
  by (relation "measure (\<lambda>n. n)") auto

definition str_int :: "int \<Rightarrow> string" where
  "str_int i = (if i < 0 then CHR ''-'' # str_nat (nat (- i)) else str_nat (nat i))"

text \<open>Python's truth value of \<^verbatim>\<open>None\<close>, of a string and of a list.\<close>

fun truthy :: "'a list option \<Rightarrow> bool" where
  "truthy None = False"
| "truthy (Some []) = False"
| "truthy (Some (x # xs)) = True"

text \<open>The body of the loop: the line printed for one server.\<close>

definition server_line :: "server \<Rightarrow> string" where
  "server_line s =
     (let sponsor = (if truthy (sponsorName s) then the (sponsorName s) else '''');
          sponsor = (if sponsor \<noteq> '''' \<and> truthy (sponsorURL s)
                     then sponsor @ '' @ '' @ the (sponsorURL s) else sponsor);
          sponsor = (if sponsor \<noteq> '''' then ''[Sponsor: '' @ sponsor @ '']'' else sponsor)
      in str_int (id' s) @ '': '' @ name s @ '' ('' @ server s @ '') '' @ sponsor)"

subsection \<open>Fetching the server list (lines 251 to 258)\<close>

text \<open>
  The \<^verbatim>\<open>try\<close> block: one call; when it raises \<^verbatim>\<open>HttpError\<close>, a second call with
  \<^verbatim>\<open>retry=True\<close>, outside the \<^verbatim>\<open>try\<close>, whose exception propagates.  Any other
  exception of the first call propagates.
\<close>

definition fetch_server_list ::
  "('w, 'r) collaborators \<Rightarrow> bool \<Rightarrow> server_filters \<Rightarrow> 'w
     \<Rightarrow> 'r event list \<times> (exn + server list) \<times> 'w" where
  "fetch_server_list c fh filters w =
     (case get_remote_servers c fh None filters w of
        (r1, w1) \<Rightarrow>
          if r1 = Inl HttpError
          then (case get_remote_servers c fh (Some True) filters w1 of
                  (r2, w2) \<Rightarrow>
                    ([GetRemoteServers fh None filters,
                      GetRemoteServers fh (Some True) filters], r2, w2))
          else ([GetRemoteServers fh None filters], r1, w1))"

subsection \<open>Selecting the fastest server (lines 273 to 285)\<close>

text \<open>The comprehension of line 275: the netloc of every server, in list order.\<close>

fun netlocs :: "(string \<Rightarrow> exn + string) \<Rightarrow> server list \<Rightarrow> exn + string list" where
  "netlocs nl [] = Inr []"
| "netlocs nl (s # ss) =
     (case nl (server s) of
        Inl e \<Rightarrow> Inl e
      | Inr d \<Rightarrow> (case netlocs nl ss of Inl e \<Rightarrow> Inl e | Inr ds \<Rightarrow> Inr (d # ds)))"

text \<open>The comprehension of lines 279 to 283: the servers whose netloc is the fastest domain.\<close>

fun fastest_servers ::
  "(string \<Rightarrow> exn + string) \<Rightarrow> string \<Rightarrow> server list \<Rightarrow> exn + server list" where
  "fastest_servers nl fastest_domain [] = Inr []"
| "fastest_servers nl fastest_domain (s # ss) =
     (case nl (server s) of
        Inl e \<Rightarrow> Inl e
      | Inr d \<Rightarrow>
          (case fastest_servers nl fastest_domain ss of
             Inl e \<Rightarrow> Inl e
           | Inr fs \<Rightarrow> Inr (if d = fastest_domain then s # fs else fs)))"

definition select_and_test ::
  "('w, 'r) collaborators \<Rightarrow> server list \<Rightarrow> 'w \<Rightarrow> ('w, 'r) run" where
  "select_and_test c server_list w =
     (let t1 = [LoggerInfo ''Selecting the fastest server based on ping''] in
      case netlocs (urlsplit_netloc c) server_list of
        Inl e \<Rightarrow> \<lparr> trace = t1, outcome = Inl e, world = w \<rparr>
      | Inr hosts \<Rightarrow>
          (case do_icmp_ping c hosts w of
             (Inl e, w1) \<Rightarrow>
               \<lparr> trace = t1 @ [DoIcmpPing hosts], outcome = Inl e, world = w1 \<rparr>
           | (Inr results, w1) \<Rightarrow>
               (let t2 = t1 @ [DoIcmpPing hosts, OrderPingResults results] in
                case order_ping_results_by_rtt c results of
                  Inl e \<Rightarrow> \<lparr> trace = t2, outcome = Inl e, world = w1 \<rparr>
                | Inr [] \<Rightarrow> \<lparr> trace = t2, outcome = Inl IndexError, world = w1 \<rparr>
                | Inr (best # rest) \<Rightarrow>
                    (case fastest_servers (urlsplit_netloc c) (domain best) server_list of
                       Inl e \<Rightarrow> \<lparr> trace = t2, outcome = Inl e, world = w1 \<rparr>
                     | Inr fastest \<Rightarrow>
                         (case do_speed_test c fastest w1 of
                            (Inl e, w2) \<Rightarrow>
                              \<lparr> trace = t2 @ [DoSpeedTest fastest],
                                outcome = Inl e, world = w2 \<rparr>
                          | (Inr res, w2) \<Rightarrow>
                              \<lparr> trace = t2 @ [DoSpeedTest fastest, LoggerInfoResults res],
                                outcome = Inr (), world = w2 \<rparr>)))))"

subsection \<open>\<^verbatim>\<open>cli\<close> (lines 224 to 285)\<close>

text \<open>Lines 243 to 249: the filters passed on to \<^verbatim>\<open>get_remote_servers\<close>.\<close>

definition server_filters_of :: "args \<Rightarrow> server_filters" where
  "server_filters_of a =
     (if show_server_list a then []
      else [(''server_allow_list'', server_id_allow_list a),
            (''server_deny_list'', server_id_deny_list a)])"

definition cli :: "('w, 'r) collaborators \<Rightarrow> args \<Rightarrow> 'w \<Rightarrow> ('w, 'r) run" where
  "cli c a w =
     (let log_level = (if simple a then WARNING else if verbose a then DEBUG else INFO);
          t0 = [BasicConfig log_level, SetLevel ''urllib3.connectionpool'' INFO];
          server_filters = server_filters_of a
      in case fetch_server_list c (force_https a) server_filters w of
           (t1, Inl e, w1) \<Rightarrow> \<lparr> trace = t0 @ t1, outcome = Inl e, world = w1 \<rparr>
         | (t1, Inr server_list, w1) \<Rightarrow>
             if show_server_list a
             then \<lparr> trace = t0 @ t1 @ map (\<lambda>s. Print (server_line s)) server_list,
                    outcome = Inr (), world = w1 \<rparr>
             else if truthy (server_id_allow_list a)
             then (case do_speed_test c server_list w1 of
                     (r, w2) \<Rightarrow>
                       \<lparr> trace = t0 @ t1 @ [DoSpeedTest server_list],
                         outcome = map_sum (\<lambda>e. e) (\<lambda>_. ()) r, world = w2 \<rparr>)
             else (let r = select_and_test c server_list w1
                   in r \<lparr> trace := t0 @ t1 @ trace r \<rparr>))"

text \<open>
  Lines 260 to 285 on their own: what the run does with the result of the fetch, a
  server list or the exception that propagates.
\<close>

definition after_fetch ::
  "('w, 'r) collaborators \<Rightarrow> args \<Rightarrow> exn + server list \<Rightarrow> 'w \<Rightarrow> ('w, 'r) run" where
  "after_fetch c a fetched w1 =
     (case fetched of
        Inl e \<Rightarrow> \<lparr> trace = [], outcome = Inl e, world = w1 \<rparr>
      | Inr server_list \<Rightarrow>
          if show_server_list a
          then \<lparr> trace = map (\<lambda>s. Print (server_line s)) server_list,
                 outcome = Inr (), world = w1 \<rparr>
          else if truthy (server_id_allow_list a)
          then (case do_speed_test c server_list w1 of
                  (r, w2) \<Rightarrow>
                    \<lparr> trace = [DoSpeedTest server_list],
                      outcome = map_sum (\<lambda>e. e) (\<lambda>_. ()) r, world = w2 \<rparr>)
          else select_and_test c server_list w1)"

subsection \<open>Reading a trace\<close>

text \<open>The calls of one kind in a trace, in order, each with its arguments.\<close>

definition fetches :: "'r event list \<Rightarrow> (bool \<times> bool option \<times> server_filters) list" where
  "fetches t =
     concat (map (\<lambda>ev. case ev of GetRemoteServers fh retry fs \<Rightarrow> [(fh, retry, fs)] | _ \<Rightarrow> []) t)"

definition pings :: "'r event list \<Rightarrow> string list list" where
  "pings t = concat (map (\<lambda>ev. case ev of DoIcmpPing hosts \<Rightarrow> [hosts] | _ \<Rightarrow> []) t)"

definition rankings :: "'r event list \<Rightarrow> ping_results list" where
  "rankings t = concat (map (\<lambda>ev. case ev of OrderPingResults rs \<Rightarrow> [rs] | _ \<Rightarrow> []) t)"

definition speed_tests :: "'r event list \<Rightarrow> server list list" where
  "speed_tests t = concat (map (\<lambda>ev. case ev of DoSpeedTest sl \<Rightarrow> [sl] | _ \<Rightarrow> []) t)"

definition prints :: "'r event list \<Rightarrow> string list" where
  "prints t = concat (map (\<lambda>ev. case ev of Print line \<Rightarrow> [line] | _ \<Rightarrow> []) t)"

text \<open>
  The calls to the functions of \<^verbatim>\<open>librespeed.core\<close> and \<^verbatim>\<open>librespeed.ping\<close>, without
  the logging and printing around them.
\<close>

fun is_collaborator_call :: "'r event \<Rightarrow> bool" where
  "is_collaborator_call (GetRemoteServers fh retry fs) = True"
| "is_collaborator_call (DoIcmpPing hosts) = True"
| "is_collaborator_call (OrderPingResults rs) = True"
| "is_collaborator_call (DoSpeedTest sl) = True"
| "is_collaborator_call ev = False"

definition collaborator_calls :: "'r event list \<Rightarrow> 'r event list" where
  "collaborator_calls t = filter is_collaborator_call t"

subsection \<open>The server ranker\<close>

text \<open>
  Modelled from the spec: \<^verbatim>\<open>librespeed.ping.order_ping_results_by_rtt\<close> is not among
  the sources.  Section 4.2 of the specification: \<open>rank\<close> takes the mapping from hosts
  to their samples and returns the ranked servers, best first; the representative
  latency of a host is its minimum successful RTT; a host with no successful sample is
  omitted; hosts of equal latency stay in candidate order.
\<close>

definition successful_rtts :: "ping_sample list \<Rightarrow> rat list" where
  "successful_rtts ss = map rtt (filter success ss)"

definition usable :: "ping_results \<Rightarrow> ping_results" where
  "usable rs = filter (\<lambda>(h, ss). successful_rtts ss \<noteq> []) rs"

definition ranked :: "string \<times> ping_sample list \<Rightarrow> ranked_server" where
  "ranked p =
     \<lparr> domain = fst p, latency = min_list (successful_rtts (snd p)),
       sample_count = length (snd p) \<rparr>"

definition rank :: "ping_results \<Rightarrow> ranked_server list" where
  "rank rs = sort_key latency (map ranked (usable rs))"

text \<open>The place of a host in the candidate list (Python's \<^verbatim>\<open>list.index\<close>).\<close>

fun position :: "'a \<Rightarrow> 'a list \<Rightarrow> nat" where
  "position x [] = 0"
| "position x (y # ys) = (if x = y then 0 else Suc (position x ys))"

text \<open>
  The order the specification asks of the ranking: ascending latency, and on equal
  latency the host listed first in the candidate list \<open>hs\<close>.
\<close>

definition ranks_before :: "string list \<Rightarrow> ranked_server \<Rightarrow> ranked_server \<Rightarrow> bool" where
  "ranks_before hs a b =
     (latency a < latency b \<or>
      (latency a = latency b \<and> position (domain a) hs < position (domain b) hs))"

subsection \<open>A concrete outside world\<close>

text \<open>
  A small network to run \<^verbatim>\<open>cli\<close> on: a published server list, the number of fetches
  that will fail with \<^verbatim>\<open>HttpError\<close> before one succeeds, the samples every host
  answers a probe with, and the speed tests made so far (the oldest first).  Its
  functions are inputs of \<open>cli\<close>, not part of it.
\<close>

record network =
  failing_fetches :: nat
  published :: "server list"
  answers :: ping_results
  measured :: "server list list"

definition filter_ids :: "server_filters \<Rightarrow> string \<Rightarrow> int list" where
  "filter_ids filters key = (case map_of filters key of Some (Some ids) \<Rightarrow> ids | _ \<Rightarrow> [])"

text \<open>
  Modelled from the spec: \<^verbatim>\<open>librespeed.core.get_remote_servers\<close> is not among the sources.
  The specification describes the server list provider as "a simple HTTP GET + JSON
  parse + allow/deny-list filter" (section 1) that "returns an ordered sequence of
  Server records" and "may raise a retryable connectivity error" (section 6): a fetch
  that fails raises \<^verbatim>\<open>HttpError\<close>; one that succeeds returns the published servers, in
  order, that are in the allow-list (when one is given) and not in the deny-list.
\<close>

definition net_get_remote_servers ::
  "bool \<Rightarrow> bool option \<Rightarrow> server_filters \<Rightarrow> network \<Rightarrow> (exn + server list) \<times> network" where
  "net_get_remote_servers fh retry filters n =
     (if 0 < failing_fetches n
      then (Inl HttpError, n \<lparr> failing_fetches := failing_fetches n - 1 \<rparr>)
      else (Inr (filter (\<lambda>s. (filter_ids filters ''server_allow_list'' = [] \<or>
                              id' s \<in> set (filter_ids filters ''server_allow_list'')) \<and>
                             id' s \<notin> set (filter_ids filters ''server_deny_list''))
                   (published n)), n))"

definition net_do_icmp_ping ::
  "string list \<Rightarrow> network \<Rightarrow> (exn + ping_results) \<times> network" where
  "net_do_icmp_ping hosts n =
     (Inr (map (\<lambda>h. (h, case map_of (answers n) h of Some ss \<Rightarrow> ss | None \<Rightarrow> [])) hosts), n)"

definition net_do_speed_test ::
  "server list \<Rightarrow> network \<Rightarrow> (exn + int list) \<times> network" where
  "net_do_speed_test servers n =
     (if servers = [] then (Inl ConnectivityError, n)
      else (Inr (map id' servers), n \<lparr> measured := measured n @ [servers] \<rparr>))"

definition net_netloc :: "string \<Rightarrow> exn + string" where
  "net_netloc url =
     Inr (takeWhile (\<lambda>ch. ch \<noteq> CHR ''/'') (if take 2 url = ''//'' then drop 2 url else url))"

definition net :: "(network, int list) collaborators" where
  "net =
     \<lparr> get_remote_servers = net_get_remote_servers,
       do_icmp_ping = net_do_icmp_ping,
       order_ping_results_by_rtt = (\<lambda>rs. Inr (rank rs)),
       do_speed_test = net_do_speed_test,
       urlsplit_netloc = net_netloc \<rparr>"


definition srv_a :: server where
  "srv_a = \<lparr> id' = 1, name = ''Alpha'', server = ''//a.example/backend'',
             sponsorName = Some ''Acme'', sponsorURL = Some ''https://acme.example'' \<rparr>"

definition srv_b :: server where
  "srv_b = \<lparr> id' = 2, name = ''Beta'', server = ''//b.example/'',
             sponsorName = None, sponsorURL = None \<rparr>"

definition srv_c :: server where
  "srv_c = \<lparr> id' = 3, name = ''Gamma'', server = ''//c.example/speed'',
             sponsorName = Some ''Corp'', sponsorURL = None \<rparr>"

definition ok :: "string \<Rightarrow> rat \<Rightarrow> ping_sample" where
  "ok h t = \<lparr> host = h, rtt = t, success = True \<rparr>"

definition lost :: "string \<Rightarrow> ping_sample" where
  "lost h = \<lparr> host = h, rtt = 0, success = False \<rparr>"

text \<open>The scenario of section 8: RTTs A 40 ms, B 25 ms, C failed.\<close>

definition samples_abc :: ping_results where
  "samples_abc =
     [(''a.example'', [ok ''a.example'' 40]),
      (''b.example'', [lost ''b.example'', ok ''b.example'' 25]),
      (''c.example'', [lost ''c.example''])]"

text \<open>Four hosts with two ties: X 30 ms, Y 20 ms, Z 30 ms, W 20 ms.\<close>

definition samples_tie :: ping_results where
  "samples_tie =
     [(''x.example'', [ok ''x.example'' 30, ok ''x.example'' 35]),
      (''y.example'', [ok ''y.example'' 20, lost ''y.example'']),
      (''z.example'', [ok ''z.example'' 31, ok ''z.example'' 30]),
      (''w.example'', [ok ''w.example'' 20])]"

definition net_up :: network where
  "net_up =
     \<lparr> failing_fetches = 0, published = [srv_a, srv_b, srv_c], answers = samples_abc,
       measured = [] \<rparr>"

text \<open>The same network when the first fetch of the server list fails.\<close>

definition net_flaky :: network where
  "net_flaky = net_up \<lparr> failing_fetches := 1 \<rparr>"

text \<open>The same servers when no host answers a probe.\<close>

definition net_silent :: network where
  "net_silent = net_up \<lparr> answers := [] \<rparr>"

section \<open>Helper lemmas\<close>

subsection \<open>Reading a trace piece by piece\<close>

lemma fetches_simps:
  "fetches [] = []"
  "fetches (ev # t) =
     (case ev of GetRemoteServers fh retry fs \<Rightarrow> [(fh, retry, fs)] | _ \<Rightarrow> []) @ fetches t"
  "fetches (t @ u) = fetches t @ fetches u"
  by (simp_all add: fetches_def)

lemma pings_simps:
  "pings [] = []"
  "pings (ev # t) = (case ev of DoIcmpPing hosts \<Rightarrow> [hosts] | _ \<Rightarrow> []) @ pings t"
  "pings (t @ u) = pings t @ pings u"
  by (simp_all add: pings_def)

lemma rankings_simps:
  "rankings [] = []"
  "rankings (ev # t) = (case ev of OrderPingResults rs \<Rightarrow> [rs] | _ \<Rightarrow> []) @ rankings t"
  "rankings (t @ u) = rankings t @ rankings u"
  by (simp_all add: rankings_def)

lemma speed_tests_simps:
  "speed_tests [] = []"
  "speed_tests (ev # t) = (case ev of DoSpeedTest sl \<Rightarrow> [sl] | _ \<Rightarrow> []) @ speed_tests t"
  "speed_tests (t @ u) = speed_tests t @ speed_tests u"
  by (simp_all add: speed_tests_def)

lemma prints_simps:
  "prints [] = []"
  "prints (ev # t) = (case ev of Print line \<Rightarrow> [line] | _ \<Rightarrow> []) @ prints t"
  "prints (t @ u) = prints t @ prints u"
  by (simp_all add: prints_def)

lemma prints_map_Print: "prints (map (\<lambda>s. Print (f s)) sl) = map f sl"
  by (induction sl) (simp_all add: prints_simps)

lemma map_Print_reads:
  "fetches (map (\<lambda>s. Print (f s)) sl) = []"
  "pings (map (\<lambda>s. Print (f s)) sl) = []"
  "rankings (map (\<lambda>s. Print (f s)) sl) = []"
  "speed_tests (map (\<lambda>s. Print (f s)) sl) = []"
  "collaborator_calls (map (\<lambda>s. Print (f s)) sl) = []"
  by (induction sl)
     (simp_all add: fetches_simps pings_simps rankings_simps speed_tests_simps
        collaborator_calls_def)

lemma fetch_server_list_trace:
  "fst (fetch_server_list c fh fs w) =
     (if fst (get_remote_servers c fh None fs w) = Inl HttpError
      then [GetRemoteServers fh None fs, GetRemoteServers fh (Some True) fs]
      else [GetRemoteServers fh None fs])"
  by (simp add: fetch_server_list_def split: prod.split)

lemma fetch_server_list_reads:
  assumes "fetch_server_list c fh fs w = (t, r, w')"
  shows "pings t = []" and "rankings t = []" and "speed_tests t = []" and "prints t = []"
    and "collaborator_calls t = t"
  using assms
  by (auto simp: fetch_server_list_def pings_simps rankings_simps speed_tests_simps
        prints_simps collaborator_calls_def split: prod.splits if_splits)

lemma select_and_test_reads:
  "fetches (trace (select_and_test c sl w)) = []"
  "prints (trace (select_and_test c sl w)) = []"
  by (simp_all add: select_and_test_def fetches_simps prints_simps Let_def
           split: sum.split prod.split list.split)

subsection \<open>The concrete network, unfolded\<close>

lemmas net_defs = net_def net_get_remote_servers_def net_do_icmp_ping_def
  net_do_speed_test_def net_netloc_def net_up_def net_flaky_def net_silent_def
  srv_a_def srv_b_def srv_c_def samples_abc_def ok_def lost_def default_args_def filter_ids_def
  server_filters_of_def

subsection \<open>The structure of a run\<close>

text \<open>
  The two comprehensions agree: once every server has a netloc, the second
  comprehension is a plain filter.
\<close>

lemma netlocs_map:
  "netlocs nl sl = Inr hosts \<Longrightarrow> map Inr hosts = map (\<lambda>s. nl (server s)) sl"
  by (induction sl arbitrary: hosts) (auto split: sum.splits)

lemma fastest_servers_filter:
  "netlocs nl sl = Inr hosts \<Longrightarrow>
     fastest_servers nl d sl = Inr (filter (\<lambda>s. nl (server s) = Inr d) sl)"
  by (induction sl arbitrary: hosts) (auto split: sum.splits)

text \<open>
  \<^verbatim>\<open>cli\<close> once the server list is fetched, and when the fetch fails.
\<close>

lemma cli_after_fetch:
  assumes "fetch_server_list c (force_https a) (server_filters_of a) w = (t, Inr sl, w1)"
  shows "cli c a w =
    (if show_server_list a
     then \<lparr> trace = [BasicConfig (if simple a then WARNING else if verbose a then DEBUG else INFO),
                     SetLevel ''urllib3.connectionpool'' INFO] @ t @
                    map (\<lambda>s. Print (server_line s)) sl,
            outcome = Inr (), world = w1 \<rparr>
     else if truthy (server_id_allow_list a)
     then \<lparr> trace = [BasicConfig (if simple a then WARNING else if verbose a then DEBUG else INFO),
                     SetLevel ''urllib3.connectionpool'' INFO] @ t @ [DoSpeedTest sl],
            outcome = map_sum (\<lambda>e. e) (\<lambda>_. ()) (fst (do_speed_test c sl w1)),
            world = snd (do_speed_test c sl w1) \<rparr>
     else (select_and_test c sl w1)
            \<lparr> trace := [BasicConfig (if simple a then WARNING else if verbose a then DEBUG else INFO),
                        SetLevel ''urllib3.connectionpool'' INFO] @ t @
                       trace (select_and_test c sl w1) \<rparr>)"
  by (simp add: cli_def assms Let_def split: prod.split)

lemma cli_fetch_failed:
  assumes "fetch_server_list c (force_https a) (server_filters_of a) w = (t, Inl e, w1)"
  shows "cli c a w =
    \<lparr> trace = [BasicConfig (if simple a then WARNING else if verbose a then DEBUG else INFO),
                SetLevel ''urllib3.connectionpool'' INFO] @ t,
      outcome = Inl e, world = w1 \<rparr>"
  by (simp add: cli_def assms Let_def)

text \<open>
  The automatic path, when the ranking has a first element and when it is empty.
\<close>

lemma select_and_test_ranked:
  assumes "netlocs (urlsplit_netloc c) sl = Inr hosts"
    and "do_icmp_ping c hosts w = (Inr results, w1)"
    and "order_ping_results_by_rtt c results = Inr (best # rest)"
    and "fastest = filter (\<lambda>s. urlsplit_netloc c (server s) = Inr (domain best)) sl"
  shows "select_and_test c sl w =
     \<lparr> trace = [LoggerInfo ''Selecting the fastest server based on ping'',
                DoIcmpPing hosts, OrderPingResults results, DoSpeedTest fastest] @
               (case fst (do_speed_test c fastest w1) of
                  Inl e \<Rightarrow> [] | Inr res \<Rightarrow> [LoggerInfoResults res]),
       outcome = map_sum (\<lambda>e. e) (\<lambda>_. ()) (fst (do_speed_test c fastest w1)),
       world = snd (do_speed_test c fastest w1) \<rparr>"
proof -
  have "fastest_servers (urlsplit_netloc c) (domain best) sl = Inr fastest"
    using fastest_servers_filter [OF assms(1), of "domain best"] assms(4) by simp
  with assms(1,2,3) show ?thesis
    by (cases "do_speed_test c fastest w1"; cases "fst (do_speed_test c fastest w1)")
       (simp_all add: select_and_test_def Let_def)
qed


text \<open>
  What \<^verbatim>\<open>fetch_server_list\<close> returns, from what the calls to \<^verbatim>\<open>get_remote_servers\<close>
  return; and \<^verbatim>\<open>cli\<close> as the fetch followed by \<open>after_fetch\<close>.
\<close>

lemma fetch_server_list_retry:
  assumes "get_remote_servers c fh None fs w = (Inl HttpError, w1)"
    and "get_remote_servers c fh (Some True) fs w1 = (r2, w2)"
  shows "fetch_server_list c fh fs w =
           ([GetRemoteServers fh None fs, GetRemoteServers fh (Some True) fs], r2, w2)"
  using assms by (simp add: fetch_server_list_def)

lemma fetch_server_list_once:
  assumes "get_remote_servers c fh None fs w = (r1, w1)" and "r1 \<noteq> Inl HttpError"
  shows "fetch_server_list c fh fs w = ([GetRemoteServers fh None fs], r1, w1)"
  using assms by (simp add: fetch_server_list_def)

lemma cli_continues:
  assumes "fetch_server_list c (force_https a) (server_filters_of a) w = (t, r, w1)"
  shows "cli c a w =
     (after_fetch c a r w1)
       \<lparr> trace := [BasicConfig (if simple a then WARNING else if verbose a then DEBUG else INFO),
                   SetLevel ''urllib3.connectionpool'' INFO] @ t @
                  trace (after_fetch c a r w1) \<rparr>"
  by (cases r) (simp_all add: cli_def assms after_fetch_def Let_def split: prod.split)

text \<open>
  The fields of the namespace that \<^verbatim>\<open>cli\<close> reads; the log level changes no call to
  a collaborator.
\<close>

lemma cli_reads:
  assumes "simple a = simple b" and "verbose a = verbose b"
    and "show_server_list a = show_server_list b"
    and "server_id_allow_list a = server_id_allow_list b"
    and "server_id_deny_list a = server_id_deny_list b"
    and "force_https a = force_https b"
  shows "cli c a w = cli c b w"
  using assms
  by (simp add: cli_def server_filters_of_def
        cong del: if_weak_cong prod.case_cong_weak sum.case_cong_weak)

lemma cli_calls_log_level:
  "collaborator_calls (trace (cli c (a \<lparr> simple := s, verbose := v \<rparr>) w)) =
     collaborator_calls (trace (cli c a w)) \<and>
   outcome (cli c (a \<lparr> simple := s, verbose := v \<rparr>) w) = outcome (cli c a w) \<and>
   world (cli c (a \<lparr> simple := s, verbose := v \<rparr>) w) = world (cli c a w)"
proof -
  let ?b = "a \<lparr> simple := s, verbose := v \<rparr>"
  obtain t r w1
    where f: "fetch_server_list c (force_https a) (server_filters_of a) w = (t, r, w1)"
    by (cases "fetch_server_list c (force_https a) (server_filters_of a) w") auto
  have "server_filters_of ?b = server_filters_of a" and "force_https ?b = force_https a"
    by (simp_all add: server_filters_of_def)
  with f have g: "fetch_server_list c (force_https ?b) (server_filters_of ?b) w = (t, r, w1)"
    by simp
  show ?thesis
  proof (cases r)
    case (Inl e)
    show ?thesis
      using cli_fetch_failed [OF f [unfolded Inl]] cli_fetch_failed [OF g [unfolded Inl]]
      by (simp add: collaborator_calls_def)
  next
    case (Inr sl)
    show ?thesis
      using cli_after_fetch [OF f [unfolded Inr]] cli_after_fetch [OF g [unfolded Inr]]
      by (simp add: collaborator_calls_def)
  qed
qed

lemma cli_calls_reads:
  assumes "show_server_list a = show_server_list b"
    and "server_id_allow_list a = server_id_allow_list b"
    and "server_id_deny_list a = server_id_deny_list b"
    and "force_https a = force_https b"
  shows "collaborator_calls (trace (cli c a w)) = collaborator_calls (trace (cli c b w))"
    and "outcome (cli c a w) = outcome (cli c b w)"
    and "world (cli c a w) = world (cli c b w)"
proof -
  have "cli c (a \<lparr> simple := simple b, verbose := verbose b \<rparr>) w = cli c b w"
    by (rule cli_reads) (simp_all add: assms)
  with cli_calls_log_level [where c = c and a = a and s = "simple b" and v = "verbose b" and w = w]
  show "collaborator_calls (trace (cli c a w)) = collaborator_calls (trace (cli c b w))"
    and "outcome (cli c a w) = outcome (cli c b w)"
    and "world (cli c a w) = world (cli c b w)"
    by simp_all
qed

subsection \<open>Runs on the concrete network\<close>

lemma run_up:
  "cli net default_args net_up =
     \<lparr> trace =
         [BasicConfig INFO, SetLevel ''urllib3.connectionpool'' INFO,
          GetRemoteServers False None
            [(''server_allow_list'', None), (''server_deny_list'', None)],
          LoggerInfo ''Selecting the fastest server based on ping'',
          DoIcmpPing [''a.example'', ''b.example'', ''c.example''],
          OrderPingResults samples_abc,
          DoSpeedTest [srv_b],
          LoggerInfoResults [2]],
       outcome = Inr (), world = net_up \<lparr> measured := [[srv_b]] \<rparr> \<rparr>"
  by (simp add: cli_def select_and_test_def fetch_server_list_def Let_def net_defs rank_def
        usable_def ranked_def successful_rtts_def)


lemma after_fetch_up:
  "after_fetch net default_args (Inr [srv_a, srv_b, srv_c]) net_up =
     \<lparr> trace =
         [LoggerInfo ''Selecting the fastest server based on ping'',
          DoIcmpPing [''a.example'', ''b.example'', ''c.example''],
          OrderPingResults samples_abc,
          DoSpeedTest [srv_b],
          LoggerInfoResults [2]],
       outcome = Inr (), world = net_up \<lparr> measured := [[srv_b]] \<rparr> \<rparr>"
  by (simp add: after_fetch_def select_and_test_def Let_def net_defs rank_def
        usable_def ranked_def successful_rtts_def)

lemma default_reads:
  "simple default_args = False" "verbose default_args = False"
  "force_https default_args = False" "show_server_list default_args = False"
  "server_id_allow_list default_args = None" "server_id_deny_list default_args = None"
  "server_filters_of default_args =
     [(''server_allow_list'', None), (''server_deny_list'', None)]"
  by (simp_all add: default_args_def server_filters_of_def)

lemma first_fetch_flaky:
  "get_remote_servers net (force_https default_args) None (server_filters_of default_args)
     net_flaky = (Inl HttpError, net_up)"
  by (simp add: net_defs)

lemma second_fetch_flaky:
  "get_remote_servers net (force_https default_args) (Some True)
     (server_filters_of default_args) net_up = (Inr [srv_a, srv_b, srv_c], net_up)"
  by (simp add: net_defs)

lemma speed_test_a_c:
  "do_speed_test net [srv_a, srv_c] net_up =
     (Inr [1, 3], net_up \<lparr> measured := [[srv_a, srv_c]] \<rparr>)"
  by (simp add: net_def net_do_speed_test_def net_up_def srv_a_def srv_c_def)

lemma speed_test_b:
  "do_speed_test net [srv_b] net_up = (Inr [2], net_up \<lparr> measured := [[srv_b]] \<rparr>)"
  by (simp add: net_def net_do_speed_test_def net_up_def srv_b_def)

lemma rank_samples_abc:
  "rank samples_abc =
     [\<lparr> domain = ''b.example'', latency = 25, sample_count = 2 \<rparr>,
      \<lparr> domain = ''a.example'', latency = 40, sample_count = 1 \<rparr>]"
  by (simp add: rank_def usable_def ranked_def successful_rtts_def samples_abc_def ok_def
        lost_def)

lemma server_lines:
  "server_line srv_a =
     ''1: Alpha (//a.example/backend) [Sponsor: Acme @ https://acme.example]''"
  "server_line srv_b = ''2: Beta (//b.example/) ''"
  "server_line srv_c = ''3: Gamma (//c.example/speed) [Sponsor: Corp]''"
  by (simp_all add: server_line_def str_int_def digit_char_def srv_a_def srv_b_def srv_c_def)

lemma fetch_up:
  "fetch_server_list net (force_https default_args) (server_filters_of default_args) net_up =
     ([GetRemoteServers False None
         [(''server_allow_list'', None), (''server_deny_list'', None)]],
      Inr [srv_a, srv_b, srv_c], net_up)"
  by (simp add: fetch_server_list_def net_defs)


lemma netlocs_abc:
  "netlocs (urlsplit_netloc net) [srv_a, srv_b, srv_c] =
     Inr [''a.example'', ''b.example'', ''c.example'']"
  by (simp add: net_def net_netloc_def srv_a_def srv_b_def srv_c_def)

lemma ping_up:
  "do_icmp_ping net [''a.example'', ''b.example'', ''c.example''] net_up =
     (Inr samples_abc, net_up)"
  by (simp add: net_def net_do_icmp_ping_def net_up_def samples_abc_def)




lemma rank_up:
  "order_ping_results_by_rtt net samples_abc =
     Inr (\<lparr> domain = ''b.example'', latency = 25, sample_count = 2 \<rparr> #
          [\<lparr> domain = ''a.example'', latency = 40, sample_count = 1 \<rparr>])"
  by (simp add: net_def rank_samples_abc)

subsection \<open>The server list provider of the specification\<close>


section \<open>Log level\<close>

text \<open>
  C9.  \<^verbatim>\<open>--simple\<close> takes precedence over \<^verbatim>\<open>--verbose\<close>: whenever \<^verbatim>\<open>simple\<close> is set
  (also when \<^verbatim>\<open>verbose\<close> is set too) the run first configures logging at WARNING;
  \<^verbatim>\<open>verbose\<close> alone gives DEBUG, and neither flag gives INFO.  The configuration is
  the first call of every run, whatever the called functions do afterwards.
\<close>

theorem cli_log_level:
  "(simple a \<longrightarrow> hd (trace (cli c a w)) = BasicConfig WARNING) \<and>
   (\<not> simple a \<and> verbose a \<longrightarrow> hd (trace (cli c a w)) = BasicConfig DEBUG) \<and>
   (\<not> simple a \<and> \<not> verbose a \<longrightarrow> hd (trace (cli c a w)) = BasicConfig INFO)"
  by (simp add: cli_def Let_def split: prod.split sum.split)

text \<open>The three cases on the concrete network: both flags, \<^verbatim>\<open>--verbose\<close> alone, neither.\<close>

theorem cli_log_level_witness:
  "hd (trace (cli net (default_args \<lparr> simple := True, verbose := True \<rparr>) net_up))
     = BasicConfig WARNING \<and>
   hd (trace (cli net (default_args \<lparr> verbose := True \<rparr>) net_up)) = BasicConfig DEBUG \<and>
   hd (trace (cli net default_args net_up)) = BasicConfig INFO"
  using cli_log_level [of "default_args \<lparr> simple := True, verbose := True \<rparr>" net net_up]
        cli_log_level [of "default_args \<lparr> verbose := True \<rparr>" net net_up]
        cli_log_level [of default_args net net_up]
  by (simp add: default_args_def)

section \<open>Fetching the server list: one retry\<close>

lemma cli_fetches:
  "fetches (trace (cli c a w)) =
     fetches (fst (fetch_server_list c (force_https a) (server_filters_of a) w))"
proof -
  obtain t r w1 where f: "fetch_server_list c (force_https a) (server_filters_of a) w = (t, r, w1)"
    by (cases "fetch_server_list c (force_https a) (server_filters_of a) w") auto
  show ?thesis
    by (cases r)
       (simp_all add: cli_def Let_def f fetches_simps select_and_test_reads map_Print_reads
          split: prod.split)
qed

text \<open>
  C6.  The server list is fetched with a bounded single retry.  The calls to
  \<^verbatim>\<open>get_remote_servers\<close> of a run are: the first attempt, without \<^verbatim>\<open>retry\<close>; and,
  exactly when that attempt raises \<^verbatim>\<open>HttpError\<close>, one further attempt with
  \<^verbatim>\<open>retry=True\<close> and the same other arguments.  There is never a third call, whatever
  the second attempt does, and no second call when the first succeeds (or raises
  something else).  The further attempt is really made: when the first attempt raises
  \<^verbatim>\<open>HttpError\<close> and leaves the world \<open>w1\<close>, the run goes on from what the second call
  returns at \<open>w1\<close>, its result and its world, and from nothing else; when the first
  attempt does not raise \<^verbatim>\<open>HttpError\<close>, the run goes on from what the first call
  returns.
\<close>

theorem cli_single_retry:
  "fetches (trace (cli c a w)) =
     (if fst (get_remote_servers c (force_https a) None (server_filters_of a) w) = Inl HttpError
      then [(force_https a, None, server_filters_of a),
            (force_https a, Some True, server_filters_of a)]
      else [(force_https a, None, server_filters_of a)]) \<and>
   (\<forall>w1 r2 w2.
      get_remote_servers c (force_https a) None (server_filters_of a) w = (Inl HttpError, w1) \<longrightarrow>
      get_remote_servers c (force_https a) (Some True) (server_filters_of a) w1 = (r2, w2) \<longrightarrow>
      cli c a w =
        (after_fetch c a r2 w2)
          \<lparr> trace :=
              [BasicConfig (if simple a then WARNING else if verbose a then DEBUG else INFO),
               SetLevel ''urllib3.connectionpool'' INFO,
               GetRemoteServers (force_https a) None (server_filters_of a),
               GetRemoteServers (force_https a) (Some True) (server_filters_of a)] @
              trace (after_fetch c a r2 w2) \<rparr>) \<and>
   (\<forall>r1 w1.
      get_remote_servers c (force_https a) None (server_filters_of a) w = (r1, w1) \<longrightarrow>
      r1 \<noteq> Inl HttpError \<longrightarrow>
      cli c a w =
        (after_fetch c a r1 w1)
          \<lparr> trace :=
              [BasicConfig (if simple a then WARNING else if verbose a then DEBUG else INFO),
               SetLevel ''urllib3.connectionpool'' INFO,
               GetRemoteServers (force_https a) None (server_filters_of a)] @
              trace (after_fetch c a r1 w1) \<rparr>)"
proof -
  have 1: "fetches (trace (cli c a w)) =
     (if fst (get_remote_servers c (force_https a) None (server_filters_of a) w) = Inl HttpError
      then [(force_https a, None, server_filters_of a),
            (force_https a, Some True, server_filters_of a)]
      else [(force_https a, None, server_filters_of a)])"
    by (simp add: cli_fetches fetch_server_list_trace fetches_simps)
  have 2: "cli c a w =
        (after_fetch c a r2 w2)
          \<lparr> trace :=
              [BasicConfig (if simple a then WARNING else if verbose a then DEBUG else INFO),
               SetLevel ''urllib3.connectionpool'' INFO,
               GetRemoteServers (force_https a) None (server_filters_of a),
               GetRemoteServers (force_https a) (Some True) (server_filters_of a)] @
              trace (after_fetch c a r2 w2) \<rparr>"
    if "get_remote_servers c (force_https a) None (server_filters_of a) w = (Inl HttpError, w1)"
      and "get_remote_servers c (force_https a) (Some True) (server_filters_of a) w1 = (r2, w2)"
    for w1 r2 w2
    using cli_continues [OF fetch_server_list_retry [OF that]] by simp
  have 3: "cli c a w =
        (after_fetch c a r1 w1)
          \<lparr> trace :=
              [BasicConfig (if simple a then WARNING else if verbose a then DEBUG else INFO),
               SetLevel ''urllib3.connectionpool'' INFO,
               GetRemoteServers (force_https a) None (server_filters_of a)] @
              trace (after_fetch c a r1 w1) \<rparr>"
    if "get_remote_servers c (force_https a) None (server_filters_of a) w = (r1, w1)"
      and "r1 \<noteq> Inl HttpError"
    for r1 w1
    using cli_continues [OF fetch_server_list_once [OF that]] by simp
  from 1 2 3 show ?thesis by blast
qed

text \<open>
  A network whose first fetch fails is asked twice, and the run goes on with the list
  of the second answer: server 2 is measured and the run returns normally.  A network
  that answers is asked once.
\<close>

theorem cli_single_retry_witness:
  "fetches (trace (cli net default_args net_flaky)) =
     [(False, None, [(''server_allow_list'', None), (''server_deny_list'', None)]),
      (False, Some True, [(''server_allow_list'', None), (''server_deny_list'', None)])] \<and>
   speed_tests (trace (cli net default_args net_flaky)) = [[srv_b]] \<and>
   outcome (cli net default_args net_flaky) = Inr () \<and>
   world (cli net default_args net_flaky) = net_up \<lparr> measured := [[srv_b]] \<rparr> \<and>
   fetches (trace (cli net default_args net_up)) =
     [(False, None, [(''server_allow_list'', None), (''server_deny_list'', None)])]"
proof -
  have "cli net default_args net_flaky =
          (after_fetch net default_args (Inr [srv_a, srv_b, srv_c]) net_up)
            \<lparr> trace :=
                [BasicConfig (if simple default_args then WARNING
                              else if verbose default_args then DEBUG else INFO),
                 SetLevel ''urllib3.connectionpool'' INFO,
                 GetRemoteServers (force_https default_args) None
                   (server_filters_of default_args),
                 GetRemoteServers (force_https default_args) (Some True)
                   (server_filters_of default_args)] @
                trace (after_fetch net default_args (Inr [srv_a, srv_b, srv_c]) net_up) \<rparr>"
    using cli_single_retry [of net default_args net_flaky] first_fetch_flaky second_fetch_flaky
    by blast
  moreover have "fetches (trace (cli net default_args net_up)) =
     [(False, None, [(''server_allow_list'', None), (''server_deny_list'', None)])]"
    using cli_single_retry [of net default_args net_up, THEN conjunct1]
    by (simp add: net_defs)
  ultimately show ?thesis
    by (simp add: after_fetch_up fetches_simps speed_tests_simps default_reads)
qed

section \<open>An explicit allow-list skips the ranking\<close>

text \<open>
  C2.  When the caller selects servers with \<^verbatim>\<open>--server\<close> (a non-empty allow-list),
  no run calls \<^verbatim>\<open>do_icmp_ping\<close> or \<^verbatim>\<open>order_ping_results_by_rtt\<close>; and a run that is
  not \<^verbatim>\<open>--list\<close> and whose fetch of the server list succeeds runs the speed test on
  the fetched list as it is, in its order: \<^verbatim>\<open>do_speed_test\<close> is called once, with that
  list, in the world the fetch left, it is the last call of the run, and the run ends
  the way that call ends, with the exception it raises or normally, in the world it
  leaves.
\<close>

theorem cli_allow_list:
  assumes "truthy (server_id_allow_list a)"
  shows "pings (trace (cli c a w)) = [] \<and>
         rankings (trace (cli c a w)) = [] \<and>
         (\<forall>t sl w1.
            \<not> show_server_list a \<longrightarrow>
            fetch_server_list c (force_https a) (server_filters_of a) w = (t, Inr sl, w1) \<longrightarrow>
            speed_tests (trace (cli c a w)) = [sl] \<and>
            trace (cli c a w) =
              [BasicConfig (if simple a then WARNING else if verbose a then DEBUG else INFO),
               SetLevel ''urllib3.connectionpool'' INFO] @ t @ [DoSpeedTest sl] \<and>
            outcome (cli c a w) = map_sum (\<lambda>e. e) (\<lambda>_. ()) (fst (do_speed_test c sl w1)) \<and>
            world (cli c a w) = snd (do_speed_test c sl w1))"
proof -
  obtain t r w1
    where f: "fetch_server_list c (force_https a) (server_filters_of a) w = (t, r, w1)"
    by (cases "fetch_server_list c (force_https a) (server_filters_of a) w") auto
  have probes: "pings (trace (cli c a w)) = [] \<and> rankings (trace (cli c a w)) = []"
  proof (cases r)
    case (Inl e)
    show ?thesis
      using fetch_server_list_reads [OF f]
      by (simp add: cli_fetch_failed [OF f [unfolded Inl]] pings_simps rankings_simps)
  next
    case (Inr sl)
    show ?thesis
      using assms fetch_server_list_reads [OF f]
      by (simp add: cli_after_fetch [OF f [unfolded Inr]] pings_simps rankings_simps
            map_Print_reads)
  qed
  have "speed_tests (trace (cli c a w)) = [sl] \<and>
        trace (cli c a w) =
          [BasicConfig (if simple a then WARNING else if verbose a then DEBUG else INFO),
           SetLevel ''urllib3.connectionpool'' INFO] @ t' @ [DoSpeedTest sl] \<and>
        outcome (cli c a w) = map_sum (\<lambda>e. e) (\<lambda>_. ()) (fst (do_speed_test c sl w1')) \<and>
        world (cli c a w) = snd (do_speed_test c sl w1')"
    if "\<not> show_server_list a"
      and g: "fetch_server_list c (force_https a) (server_filters_of a) w = (t', Inr sl, w1')"
    for t' sl w1'
    using that(1) assms fetch_server_list_reads [OF g]
    by (simp add: cli_after_fetch [OF g] speed_tests_simps)
  with probes show ?thesis by blast
qed

text \<open>
  With \<^verbatim>\<open>--server 3 1\<close> on the concrete network the servers 1 and 3 are measured, in the
  order of the fetched list, and nothing is probed.
\<close>

theorem cli_allow_list_witness:
  "pings (trace (cli net (default_args \<lparr> server_id_allow_list := Some [3, 1] \<rparr>) net_up)) = [] \<and>
   rankings (trace (cli net (default_args \<lparr> server_id_allow_list := Some [3, 1] \<rparr>) net_up)) = [] \<and>
   speed_tests (trace (cli net (default_args \<lparr> server_id_allow_list := Some [3, 1] \<rparr>) net_up))
     = [[srv_a, srv_c]] \<and>
   outcome (cli net (default_args \<lparr> server_id_allow_list := Some [3, 1] \<rparr>) net_up) = Inr () \<and>
   world (cli net (default_args \<lparr> server_id_allow_list := Some [3, 1] \<rparr>) net_up) =
     net_up \<lparr> measured := [[srv_a, srv_c]] \<rparr>"
proof -
  let ?a = "default_args \<lparr> server_id_allow_list := Some [3, 1] \<rparr>"
  have 1: "\<not> show_server_list ?a" and 2: "truthy (server_id_allow_list ?a)"
    by (simp_all add: default_args_def)
  have 3: "fetch_server_list net (force_https ?a) (server_filters_of ?a) net_up =
             ([GetRemoteServers False None
                 [(''server_allow_list'', Some [3, 1]), (''server_deny_list'', None)]],
              Inr [srv_a, srv_c], net_up)"
    by (simp add: fetch_server_list_def net_defs)
  have "pings (trace (cli net ?a net_up)) = [] \<and>
        rankings (trace (cli net ?a net_up)) = [] \<and>
        speed_tests (trace (cli net ?a net_up)) = [[srv_a, srv_c]] \<and>
        outcome (cli net ?a net_up) =
          map_sum (\<lambda>e. e) (\<lambda>_. ()) (fst (do_speed_test net [srv_a, srv_c] net_up)) \<and>
        world (cli net ?a net_up) = snd (do_speed_test net [srv_a, srv_c] net_up)"
    using cli_allow_list [OF 2, of net net_up] 1 3 by blast
  then show ?thesis
    by (simp add: speed_test_a_c)
qed

section \<open>The fastest server is the one tested\<close>

text \<open>
  C7.  In the automatic path (no \<^verbatim>\<open>--list\<close>, no allow-list), when the server list is
  fetched, every server URL has a netloc, the probe returns and the ranking is not
  empty: the hosts probed are the netlocs of the fetched servers in list order, the
  ranking is called on the probe's results, and the speed test is run on exactly
  the fetched servers whose netloc equals the domain of the first ranked result, in
  the order of the fetched list.  \<^verbatim>\<open>do_speed_test\<close> is called once, on those servers,
  in the world the probe left; the run ends the way that call ends, in the world it
  leaves, and logs its results when it returns.
\<close>

theorem cli_tests_fastest_server:
  assumes "\<not> show_server_list a" and "\<not> truthy (server_id_allow_list a)"
    and "fetch_server_list c (force_https a) (server_filters_of a) w = (t, Inr sl, w1)"
    and "netlocs (urlsplit_netloc c) sl = Inr hosts"
    and "do_icmp_ping c hosts w1 = (Inr results, w2)"
    and "order_ping_results_by_rtt c results = Inr (best # rest)"
    and "fastest = filter (\<lambda>s. urlsplit_netloc c (server s) = Inr (domain best)) sl"
  shows "map Inr hosts = map (\<lambda>s. urlsplit_netloc c (server s)) sl \<and>
         pings (trace (cli c a w)) = [hosts] \<and>
         rankings (trace (cli c a w)) = [results] \<and>
         speed_tests (trace (cli c a w)) = [fastest] \<and>
         trace (cli c a w) =
           [BasicConfig (if simple a then WARNING else if verbose a then DEBUG else INFO),
            SetLevel ''urllib3.connectionpool'' INFO] @ t @
           [LoggerInfo ''Selecting the fastest server based on ping'',
            DoIcmpPing hosts, OrderPingResults results, DoSpeedTest fastest] @
           (case fst (do_speed_test c fastest w2) of
              Inl e \<Rightarrow> [] | Inr res \<Rightarrow> [LoggerInfoResults res]) \<and>
         outcome (cli c a w) = map_sum (\<lambda>e. e) (\<lambda>_. ()) (fst (do_speed_test c fastest w2)) \<and>
         world (cli c a w) = snd (do_speed_test c fastest w2)"
  using assms(1,2) fetch_server_list_reads [OF assms(3)] netlocs_map [OF assms(4)]
  by (cases "fst (do_speed_test c fastest w2)")
     (simp_all add: cli_after_fetch [OF assms(3)] select_and_test_ranked [OF assms(4,5,6,7)]
        pings_simps rankings_simps speed_tests_simps)

text \<open>
  On the concrete network host B is the fastest, and server 2 is the one measured.
\<close>

theorem cli_tests_fastest_server_witness:
  "pings (trace (cli net default_args net_up)) =
     [[''a.example'', ''b.example'', ''c.example'']] \<and>
   rankings (trace (cli net default_args net_up)) = [samples_abc] \<and>
   speed_tests (trace (cli net default_args net_up)) = [[srv_b]] \<and>
   outcome (cli net default_args net_up) = Inr () \<and>
   world (cli net default_args net_up) = net_up \<lparr> measured := [[srv_b]] \<rparr>"
proof -
  have 1: "\<not> show_server_list default_args"
    and 2: "\<not> truthy (server_id_allow_list default_args)"
    by (simp_all add: default_args_def)
  have 7: "[srv_b] =
     filter (\<lambda>s. urlsplit_netloc net (server s) =
                  Inr (domain \<lparr> domain = ''b.example'', latency = 25, sample_count = 2 \<rparr>))
       [srv_a, srv_b, srv_c]"
    by (simp add: net_def net_netloc_def srv_a_def srv_b_def srv_c_def)
  show ?thesis
    using cli_tests_fastest_server [OF 1 2 fetch_up netlocs_abc ping_up rank_up 7]
    by (simp add: speed_test_b default_reads pings_simps rankings_simps speed_tests_simps)
qed

section \<open>An empty ranking\<close>




section \<open>Options that are parsed and never read\<close>

text \<open>
  C4.  \<^verbatim>\<open>--no-download\<close> and \<^verbatim>\<open>--no-upload\<close> have no effect on a run: whatever their
  values, \<^verbatim>\<open>cli\<close> makes the same calls with the same arguments, ends the same way
  and leaves the same world.  Nothing about them reaches \<^verbatim>\<open>do_speed_test\<close>.
\<close>

theorem cli_ignores_no_download_no_upload:
  "cli c (a \<lparr> no_download := d, no_upload := u \<rparr>) w = cli c a w"
  by (rule cli_reads) simp_all

text \<open>
  With both flags set the concrete run is the run without them: server 2 is tested.
\<close>

theorem cli_ignores_no_download_no_upload_witness:
  "cli net (default_args \<lparr> no_download := True, no_upload := True \<rparr>) net_up =
     cli net default_args net_up \<and>
   speed_tests (trace (cli net (default_args \<lparr> no_download := True, no_upload := True \<rparr>)
     net_up)) = [[srv_b]]"
  using cli_ignores_no_download_no_upload
    [where c = net and a = default_args and d = True and u = True and w = net_up]
  by (simp add: run_up speed_tests_simps)

text \<open>
  C10.  Two namespaces that differ only in \<^verbatim>\<open>--no-icmp\<close>, \<^verbatim>\<open>--concurrent\<close>, the
  output-formatting options (\<^verbatim>\<open>--bytes\<close>, \<^verbatim>\<open>--mebibytes\<close>, \<^verbatim>\<open>--distance\<close>, \<^verbatim>\<open>--share\<close>,
  \<^verbatim>\<open>--simple\<close>, \<^verbatim>\<open>--verbose\<close>, \<^verbatim>\<open>--csv\<close>, \<^verbatim>\<open>--csv-delimiter\<close>, \<^verbatim>\<open>--csv-header\<close>,
  \<^verbatim>\<open>--json\<close>), \<^verbatim>\<open>--source\<close>, \<^verbatim>\<open>--timeout\<close>, \<^verbatim>\<open>--duration\<close>, \<^verbatim>\<open>--chunk\<close>,
  \<^verbatim>\<open>--upload-size\<close>, \<^verbatim>\<open>--skip-cert-verify\<close>, \<^verbatim>\<open>--no-pre-allocate\<close> and the telemetry
  options give the same sequence of calls to \<^verbatim>\<open>get_remote_servers\<close>, \<^verbatim>\<open>do_icmp_ping\<close>,
  \<^verbatim>\<open>order_ping_results_by_rtt\<close> and \<^verbatim>\<open>do_speed_test\<close>, with the same arguments, and the
  same outcome.
\<close>

theorem cli_unused_options:
  "collaborator_calls (trace (cli c
      (a \<lparr> no_icmp := x1, concurrent := x2, bytes := x3, mebibytes := x4, distance := x5,
           share := x6, simple := x7, verbose := x8, csv := x9, csv_delimiter := x10,
           csv_header := x11, json := x12, source := x13, timeout := x14, duration := x15,
           chunk := x16, upload_size := x17, skip_cert_verify := x18,
           no_pre_allocate := x19, telemetry_json := x20, telemetry_level := x21,
           telemetry_server := x22, telemetry_path := x23, telemetry_share := x24,
           telemetry_extra := x25 \<rparr>) w)) =
     collaborator_calls (trace (cli c a w)) \<and>
   outcome (cli c
      (a \<lparr> no_icmp := x1, concurrent := x2, bytes := x3, mebibytes := x4, distance := x5,
           share := x6, simple := x7, verbose := x8, csv := x9, csv_delimiter := x10,
           csv_header := x11, json := x12, source := x13, timeout := x14, duration := x15,
           chunk := x16, upload_size := x17, skip_cert_verify := x18,
           no_pre_allocate := x19, telemetry_json := x20, telemetry_level := x21,
           telemetry_server := x22, telemetry_path := x23, telemetry_share := x24,
           telemetry_extra := x25 \<rparr>) w) =
     outcome (cli c a w)"
  by (intro conjI cli_calls_reads) simp_all

text \<open>
  Every one of these options changed at once, on the concrete network.
\<close>

theorem cli_unused_options_witness:
  "collaborator_calls (trace (cli net
      (default_args \<lparr> no_icmp := True, concurrent := 8, bytes := True, mebibytes := True,
           distance := ''mi'', share := True, simple := True, verbose := True, csv := True,
           csv_delimiter := '';'', csv_header := True, json := True,
           source := Some ''10.0.0.7'', timeout := 5, duration := 30, chunk := 10,
           upload_size := Finite 64, skip_cert_verify := True, no_pre_allocate := True,
           telemetry_json := Some ''t.json'', telemetry_level := Some ''full'',
           telemetry_server := Some ''https://t.example'', telemetry_path := Some ''/up'',
           telemetry_share := Some ''/share'', telemetry_extra := Some ''note'' \<rparr>) net_up)) =
     [GetRemoteServers False None
        [(''server_allow_list'', None), (''server_deny_list'', None)],
      DoIcmpPing [''a.example'', ''b.example'', ''c.example''],
      OrderPingResults samples_abc,
      DoSpeedTest [srv_b]] \<and>
   outcome (cli net
      (default_args \<lparr> no_icmp := True, concurrent := 8, bytes := True, mebibytes := True,
           distance := ''mi'', share := True, simple := True, verbose := True, csv := True,
           csv_delimiter := '';'', csv_header := True, json := True,
           source := Some ''10.0.0.7'', timeout := 5, duration := 30, chunk := 10,
           upload_size := Finite 64, skip_cert_verify := True, no_pre_allocate := True,
           telemetry_json := Some ''t.json'', telemetry_level := Some ''full'',
           telemetry_server := Some ''https://t.example'', telemetry_path := Some ''/up'',
           telemetry_share := Some ''/share'', telemetry_extra := Some ''note'' \<rparr>) net_up) =
     Inr ()"
  using cli_unused_options
    [where c = net and a = default_args and w = net_up and ?x1.0 = True and ?x2.0 = 8
       and ?x3.0 = True and ?x4.0 = True and ?x5.0 = "''mi''" and ?x6.0 = True
       and ?x7.0 = True and ?x8.0 = True and ?x9.0 = True and ?x10.0 = "'';''"
       and ?x11.0 = True and ?x12.0 = True and ?x13.0 = "Some ''10.0.0.7''" and ?x14.0 = 5
       and ?x15.0 = 30 and ?x16.0 = 10 and ?x17.0 = "Finite 64" and ?x18.0 = True
       and ?x19.0 = True and ?x20.0 = "Some ''t.json''" and ?x21.0 = "Some ''full''"
       and ?x22.0 = "Some ''https://t.example''" and ?x23.0 = "Some ''/up''"
       and ?x24.0 = "Some ''/share''" and ?x25.0 = "Some ''note''"]
  by (simp add: run_up collaborator_calls_def)

section \<open>Listing the servers\<close>

text \<open>
  C8.  With \<^verbatim>\<open>--list\<close>, every call to \<^verbatim>\<open>get_remote_servers\<close> passes no filter at all,
  the values of \<^verbatim>\<open>--server\<close> and \<^verbatim>\<open>--exclude\<close> do not change the run, and no call to
  \<^verbatim>\<open>do_icmp_ping\<close>, \<^verbatim>\<open>order_ping_results_by_rtt\<close> or \<^verbatim>\<open>do_speed_test\<close> is made; when
  the fetch succeeds, the run prints one line per fetched server, in order, and
  returns normally.
\<close>

theorem cli_show_server_list:
  assumes "show_server_list a"
  shows "set (map (\<lambda>(fh, retry, fs). fs) (fetches (trace (cli c a w)))) = {[]} \<and>
         cli c (a \<lparr> server_id_allow_list := al, server_id_deny_list := dl \<rparr>) w = cli c a w \<and>
         pings (trace (cli c a w)) = [] \<and>
         rankings (trace (cli c a w)) = [] \<and>
         speed_tests (trace (cli c a w)) = [] \<and>
         (\<forall>t sl w1.
            fetch_server_list c (force_https a) [] w = (t, Inr sl, w1) \<longrightarrow>
            prints (trace (cli c a w)) = map server_line sl \<and>
            outcome (cli c a w) = Inr ())"
proof -
  have nofilter: "server_filters_of a = []"
    using assms by (simp add: server_filters_of_def)
  obtain t r w1
    where f: "fetch_server_list c (force_https a) (server_filters_of a) w = (t, r, w1)"
    by (cases "fetch_server_list c (force_https a) (server_filters_of a) w") auto
  have 1: "set (map (\<lambda>(fh, retry, fs). fs) (fetches (trace (cli c a w)))) = {[]}"
    by (simp add: cli_fetches fetch_server_list_trace fetches_simps nofilter)
  have 2: "cli c (a \<lparr> server_id_allow_list := al, server_id_deny_list := dl \<rparr>) w = cli c a w"
    using assms
    by (simp add: cli_def server_filters_of_def
          cong del: if_weak_cong prod.case_cong_weak sum.case_cong_weak)
  have 3: "pings (trace (cli c a w)) = [] \<and> rankings (trace (cli c a w)) = [] \<and>
           speed_tests (trace (cli c a w)) = []"
  proof (cases r)
    case (Inl e)
    show ?thesis
      using fetch_server_list_reads [OF f]
      by (simp add: cli_fetch_failed [OF f [unfolded Inl]] pings_simps rankings_simps
            speed_tests_simps)
  next
    case (Inr sl)
    show ?thesis
      using assms fetch_server_list_reads [OF f]
      by (simp add: cli_after_fetch [OF f [unfolded Inr]] pings_simps rankings_simps
            speed_tests_simps map_Print_reads)
  qed
  have 4: "prints (trace (cli c a w)) = map server_line sl \<and> outcome (cli c a w) = Inr ()"
    if "fetch_server_list c (force_https a) [] w = (t', Inr sl, w1')" for t' sl w1'
  proof -
    have g: "fetch_server_list c (force_https a) (server_filters_of a) w = (t', Inr sl, w1')"
      using that by (simp add: nofilter)
    show ?thesis
      using assms fetch_server_list_reads [OF g]
      by (simp add: cli_after_fetch [OF g] prints_simps prints_map_Print)
  qed
  from 1 2 3 4 show ?thesis by blast
qed

text \<open>
  \<^verbatim>\<open>--list --server 1 --exclude 2\<close> lists all three servers of the concrete network.
\<close>

theorem cli_show_server_list_witness:
  "set (map (\<lambda>(fh, retry, fs). fs) (fetches (trace (cli net
      (default_args \<lparr> show_server_list := True, server_id_allow_list := Some [1],
         server_id_deny_list := Some [2] \<rparr>) net_up)))) = {[]} \<and>
   prints (trace (cli net
      (default_args \<lparr> show_server_list := True, server_id_allow_list := Some [1],
         server_id_deny_list := Some [2] \<rparr>) net_up)) =
     [''1: Alpha (//a.example/backend) [Sponsor: Acme @ https://acme.example]'',
      ''2: Beta (//b.example/) '',
      ''3: Gamma (//c.example/speed) [Sponsor: Corp]''] \<and>
   speed_tests (trace (cli net
      (default_args \<lparr> show_server_list := True, server_id_allow_list := Some [1],
         server_id_deny_list := Some [2] \<rparr>) net_up)) = [] \<and>
   outcome (cli net
      (default_args \<lparr> show_server_list := True, server_id_allow_list := Some [1],
         server_id_deny_list := Some [2] \<rparr>) net_up) = Inr ()"
proof -
  let ?a = "default_args \<lparr> show_server_list := True, server_id_allow_list := Some [1],
              server_id_deny_list := Some [2] \<rparr>"
  have 1: "show_server_list ?a"
    by simp
  have 2: "fetch_server_list net (force_https ?a) [] net_up =
             ([GetRemoteServers False None []], Inr [srv_a, srv_b, srv_c], net_up)"
    by (simp add: fetch_server_list_def net_defs)
  have "prints (trace (cli net ?a net_up)) = map server_line [srv_a, srv_b, srv_c] \<and>
        outcome (cli net ?a net_up) = Inr ()"
    using cli_show_server_list [OF 1, of net net_up] 2 by blast
  moreover have "set (map (\<lambda>(fh, retry, fs). fs) (fetches (trace (cli net ?a net_up)))) = {[]} \<and>
        speed_tests (trace (cli net ?a net_up)) = []"
    using cli_show_server_list [OF 1, of net net_up] by blast
  ultimately show ?thesis
    by (simp add: server_lines)
qed

section \<open>Allow-list together with deny-list\<close>



section \<open>The ranking\<close>

text \<open>
  Insertion into a list that is in rank order keeps it in rank order, when the
  element inserted comes before all of the list in the candidate order.
\<close>

lemma sorted_wrt_insort_key_stable:
  fixes f :: "'a \<Rightarrow> 'k::linorder" and pos :: "'a \<Rightarrow> nat"
  assumes "sorted_wrt (\<lambda>a b. f a < f b \<or> (f a = f b \<and> pos a < pos b)) ys"
    and "\<forall>y\<in>set ys. pos x < pos y"
  shows "sorted_wrt (\<lambda>a b. f a < f b \<or> (f a = f b \<and> pos a < pos b)) (insort_key f x ys)"
  using assms
proof (induction ys)
  case Nil
  then show ?case by simp
next
  case (Cons y ys)
  show ?case
  proof (cases "f x \<le> f y")
    case True
    have "\<forall>z\<in>set (y # ys). f x < f z \<or> (f x = f z \<and> pos x < pos z)"
    proof
      fix z
      assume z: "z \<in> set (y # ys)"
      have "f y \<le> f z" using Cons.prems(1) z by auto
      with True have "f x \<le> f z" by simp
      moreover have "pos x < pos z" using Cons.prems(2) z by auto
      ultimately show "f x < f z \<or> (f x = f z \<and> pos x < pos z)" by auto
    qed
    with True Cons.prems(1) show ?thesis by simp
  next
    case False
    then have "f y < f x" by simp
    moreover have "sorted_wrt (\<lambda>a b. f a < f b \<or> (f a = f b \<and> pos a < pos b))
                     (insort_key f x ys)"
      using Cons by simp
    ultimately show ?thesis
      using False Cons.prems(1) by (auto simp: set_insort_key)
  qed
qed

lemma sorted_wrt_sort_key_stable:
  fixes f :: "'a \<Rightarrow> 'k::linorder" and pos :: "'a \<Rightarrow> nat"
  assumes "sorted_wrt (\<lambda>a b. pos a < pos b) xs"
  shows "sorted_wrt (\<lambda>a b. f a < f b \<or> (f a = f b \<and> pos a < pos b)) (sort_key f xs)"
  using assms
proof (induction xs)
  case Nil
  then show ?case by simp
next
  case (Cons x xs)
  then show ?case
    by (simp add: sorted_wrt_insort_key_stable)
qed

text \<open>
  In a list without repetition the places of the elements increase.
\<close>

lemma position_increasing:
  "distinct hs \<Longrightarrow> sorted_wrt (\<lambda>a b. position a hs < position b hs) hs"
proof (induction hs)
  case Nil
  then show ?case by simp
next
  case (Cons h hs)
  then have "sorted_wrt (\<lambda>a b. position a hs < position b hs) hs" by simp
  then have "sorted_wrt (\<lambda>a b. position a (h # hs) < position b (h # hs)) hs"
    using Cons.prems by (rule_tac sorted_wrt_mono_rel) auto
  with Cons.prems show ?case by auto
qed

lemma usable_iff: "successful_rtts ss \<noteq> [] \<longleftrightarrow> (\<exists>s\<in>set ss. success s)"
  by (auto simp: successful_rtts_def filter_empty_conv)

lemma domain_ranked: "domain (ranked p) = fst p"
  by (simp add: ranked_def)

lemma rank_hosts:
  "mset (map domain (rank rs)) =
     mset (map fst (filter (\<lambda>(h, ss). \<exists>s\<in>set ss. success s) rs))"
proof -
  have "mset (map domain (rank rs)) = image_mset domain (mset (map ranked (usable rs)))"
    by (simp add: rank_def)
  also have "\<dots> = mset (map fst (usable rs))"
    by (simp add: domain_ranked image_mset.compositionality comp_def)
  also have "usable rs = filter (\<lambda>(h, ss). \<exists>s\<in>set ss. success s) rs"
    by (simp add: usable_def usable_iff)
  finally show ?thesis .
qed

lemma rank_latency:
  assumes "distinct (map fst rs)" and "r \<in> set (rank rs)"
  shows "\<exists>ss. map_of rs (domain r) = Some ss \<and> (\<exists>s\<in>set ss. success s) \<and>
              latency r = Min (rtt ` {s \<in> set ss. success s})"
proof -
  from assms(2) obtain h ss
    where in_rs: "(h, ss) \<in> set rs" and ok: "successful_rtts ss \<noteq> []" and r: "r = ranked (h, ss)"
    by (auto simp: rank_def usable_def)
  have "map_of rs h = Some ss"
    using assms(1) in_rs by simp
  moreover have "latency r = Min (rtt ` {s \<in> set ss. success s})"
    using ok by (simp add: r ranked_def min_list_Min successful_rtts_def)
  ultimately show ?thesis
    using ok by (auto simp: r ranked_def usable_iff)
qed

lemma rank_order:
  assumes "distinct (map fst rs)"
  shows "sorted_wrt (ranks_before (map fst rs)) (rank rs)"
proof -
  let ?hs = "map fst rs"
  have "sorted_wrt (\<lambda>a b. position a ?hs < position b ?hs) ?hs"
    using assms by (rule position_increasing)
  then have "sorted_wrt (\<lambda>p q. position (fst p) ?hs < position (fst q) ?hs) rs"
    by (simp add: sorted_wrt_map)
  then have "sorted_wrt (\<lambda>p q. position (fst p) ?hs < position (fst q) ?hs) (usable rs)"
    unfolding usable_def by (rule sorted_wrt_filter)
  then have "sorted_wrt (\<lambda>a b. position (domain a) ?hs < position (domain b) ?hs)
               (map ranked (usable rs))"
    by (simp add: sorted_wrt_map domain_ranked)
  then have "sorted_wrt (\<lambda>a b. latency a < latency b \<or>
               (latency a = latency b \<and> position (domain a) ?hs < position (domain b) ?hs))
               (sort_key latency (map ranked (usable rs)))"
    by (rule sorted_wrt_sort_key_stable)
  then show ?thesis
    by (simp add: rank_def ranks_before_def [abs_def])
qed

text \<open>
  C3.  For every mapping from hosts to ping samples (a list of pairs with distinct
  hosts, in candidate order), the ranking returns a permutation of exactly the hosts
  that have at least one successful sample; the latency of each ranked host is the
  minimum of its successful RTTs; and the result is in strictly ascending order of
  (latency, place in the candidate list): a host of smaller latency comes first, and
  of two hosts of equal latency the one listed first comes first.
\<close>

theorem rank_permutation_ordered:
  assumes "distinct (map fst rs)"
  shows "mset (map domain (rank rs)) =
           mset (map fst (filter (\<lambda>(h, ss). \<exists>s\<in>set ss. success s) rs)) \<and>
         (\<forall>r\<in>set (rank rs). \<exists>ss. map_of rs (domain r) = Some ss \<and>
            (\<exists>s\<in>set ss. success s) \<and> latency r = Min (rtt ` {s \<in> set ss. success s})) \<and>
         sorted_wrt (ranks_before (map fst rs)) (rank rs)"
  using rank_hosts [of rs] rank_latency [OF assms] rank_order [OF assms] by blast

text \<open>
  The scenario of section 8 of the specification (A 40 ms, B 25 ms, C failed gives
  B, A), and the four hosts with two ties (Y, W, X, Z).
\<close>

lemma rank_samples_tie:
  "map domain (rank samples_tie) = [''y.example'', ''w.example'', ''x.example'', ''z.example'']"
  by (simp add: rank_def usable_def ranked_def successful_rtts_def samples_tie_def ok_def
        lost_def)

theorem rank_permutation_ordered_witness:
  "distinct (map fst samples_abc) \<and>
   map domain (rank samples_abc) = [''b.example'', ''a.example''] \<and>
   sorted_wrt (ranks_before (map fst samples_abc)) (rank samples_abc) \<and>
   distinct (map fst samples_tie) \<and>
   map domain (rank samples_tie) =
     [''y.example'', ''w.example'', ''x.example'', ''z.example''] \<and>
   sorted_wrt (ranks_before (map fst samples_tie)) (rank samples_tie)"
proof -
  have abc: "distinct (map fst samples_abc)"
    by (simp add: samples_abc_def)
  have tie: "distinct (map fst samples_tie)"
    by (simp add: samples_tie_def)
  have "sorted_wrt (ranks_before (map fst samples_abc)) (rank samples_abc)"
    using rank_permutation_ordered [OF abc] by blast
  moreover have "sorted_wrt (ranks_before (map fst samples_tie)) (rank samples_tie)"
    using rank_permutation_ordered [OF tie] by blast
  ultimately show ?thesis
    using abc tie by (simp add: rank_samples_abc rank_samples_tie)
qed

end
